theory Spec2Isabelle
  imports Complex_Main
begin

section \<open>JavaScript values used by the live-metrics pipeline\<close>

text \<open>
  A JavaScript string is a sequence of UTF-16 code units; the patterns of
  \<^verbatim>\<open>metricsService.ts\<close> contain the code units U+2082, U+00B0 and U+2103, so a
  string is a list of code units given as natural numbers. \<open>str\<close> turns an ASCII
  literal into such a list.
\<close>

type_synonym jsstring = "nat list"

definition str :: "string \<Rightarrow> jsstring" where
  "str s = map of_char s"

text \<open>
  A JavaScript number. Finite values are kept as exact rationals: the rounding of a
  decimal literal to binary64, the overflow of a very large literal to Infinity and the
  underflow of a very small one to 0 are not modelled, and \<open>-0\<close> is \<open>0\<close>. The
  model and the runtime agree where the number a literal denotes is a binary64 value.
  \<open>NaN\<close> and the two infinities are values of their own, as \<^verbatim>\<open>parseFloat\<close> can
  return them.
\<close>

datatype jsnum = Num rat | NaN | PosInfinity | NegInfinity

fun negate :: "jsnum \<Rightarrow> jsnum" where
  "negate (Num r) = Num (- r)"
| "negate NaN = NaN"
| "negate PosInfinity = NegInfinity"
| "negate NegInfinity = PosInfinity"

text \<open>Truthiness of a number, as \<^verbatim>\<open>||\<close> tests it: \<open>0\<close> and \<open>NaN\<close> are falsy.\<close>

fun truthy_num :: "jsnum \<Rightarrow> bool" where
  "truthy_num (Num r) = (r \<noteq> 0)"
| "truthy_num NaN = False"
| "truthy_num PosInfinity = True"
| "truthy_num NegInfinity = True"

text \<open>\<^verbatim>\<open>a || b\<close> on numbers.\<close>

definition or_else :: "jsnum \<Rightarrow> jsnum \<Rightarrow> jsnum" where
  "or_else a b = (if truthy_num a then a else b)"

subsection \<open>Character classes\<close>

definition is_digit :: "nat \<Rightarrow> bool" where
  "is_digit c = (48 \<le> c \<and> c \<le> 57)"

text \<open>
  White space and line terminators of ECMAScript: what \<^verbatim>\<open>\s\<close> matches and what
  \<^verbatim>\<open>parseFloat\<close> skips at the start of its argument.
\<close>

definition is_space :: "nat \<Rightarrow> bool" where
  "is_space c =
     (c = 9 \<or> c = 10 \<or> c = 11 \<or> c = 12 \<or> c = 13 \<or> c = 32 \<or> c = 160 \<or> c = 5760
      \<or> (8192 \<le> c \<and> c \<le> 8202) \<or> c = 8232 \<or> c = 8233 \<or> c = 8239 \<or> c = 8287
      \<or> c = 12288 \<or> c = 65279)"

text \<open>Line terminators, which \<^verbatim>\<open>.\<close> does not match.\<close>

definition is_line_terminator :: "nat \<Rightarrow> bool" where
  "is_line_terminator c = (c = 10 \<or> c = 13 \<or> c = 8232 \<or> c = 8233)"

subsection \<open>parseFloat\<close>

text \<open>
  \<^verbatim>\<open>parseFloat(s)\<close> skips leading white space and reads the longest prefix that is a
  decimal literal: an optional sign, then \<^verbatim>\<open>Infinity\<close>, or digits with an optional
  fraction and an optional exponent. With no such prefix the result is \<open>NaN\<close>.
\<close>

definition digits_value :: "jsstring \<Rightarrow> nat" where
  "digits_value ds = foldl (\<lambda>a c. 10 * a + (c - 48)) 0 ds"


definition scale10 :: "rat \<Rightarrow> int \<Rightarrow> rat" where
  "scale10 x e = (if 0 \<le> e then x * 10 ^ nat e else x / 10 ^ nat (- e))"

text \<open>The exponent part at the start of \<open>s\<close>, or \<open>0\<close> when there is none.\<close>

fun parse_exponent :: "jsstring \<Rightarrow> int" where
  "parse_exponent [] = 0"
| "parse_exponent (c # rest) =
     (if c = 101 \<or> c = 69 then
        (case rest of
           [] \<Rightarrow> 0
         | d # ds \<Rightarrow>
             if d = 43 then
               (if takeWhile is_digit ds = [] then 0
                else int (digits_value (takeWhile is_digit ds)))
             else if d = 45 then
               (if takeWhile is_digit ds = [] then 0
                else - int (digits_value (takeWhile is_digit ds)))
             else
               (if takeWhile is_digit rest = [] then 0
                else int (digits_value (takeWhile is_digit rest))))
      else 0)"

definition parse_unsigned :: "jsstring \<Rightarrow> jsnum" where
  "parse_unsigned s =
     (let ip = takeWhile is_digit s; r1 = dropWhile is_digit s in
      case r1 of
        [] \<Rightarrow> (if ip = [] then NaN else Num (of_nat (digits_value ip)))
      | c # r2 \<Rightarrow>
          if c = 46 then
            (let fp = takeWhile is_digit r2; r3 = dropWhile is_digit r2 in
             if ip = [] \<and> fp = [] then NaN
             else Num (scale10 (of_nat (digits_value ip)
                                + of_nat (digits_value fp) / 10 ^ length fp)
                               (parse_exponent r3)))
          else if ip = [] then
            (if take 8 s = str ''Infinity'' then PosInfinity else NaN)
          else Num (scale10 (of_nat (digits_value ip)) (parse_exponent r1)))"

definition parseFloat :: "jsstring \<Rightarrow> jsnum" where
  "parseFloat s =
     (case dropWhile is_space s of
        [] \<Rightarrow> NaN
      | c # r \<Rightarrow>
          if c = 43 then parse_unsigned r
          else if c = 45 then negate (parse_unsigned r)
          else parse_unsigned (c # r))"

section \<open>Regular expressions\<close>

text \<open>
  The fragment of ECMAScript regular expressions that the source's patterns are written
  in: a sequence of single-character matchers, each taken once or under a greedy
  \<^verbatim>\<open>*\<close>, \<^verbatim>\<open>+\<close> or \<^verbatim>\<open>?\<close>, with capture groups around sub-sequences (\<open>Open n\<close> and
  \<open>Close n\<close> are the parentheses of group \<open>n\<close>, numbered from 1 by their opening
  parenthesis), and the flag \<^verbatim>\<open>i\<close>. The flags \<^verbatim>\<open>g\<close>, \<^verbatim>\<open>y\<close>, \<^verbatim>\<open>u\<close> and
  \<^verbatim>\<open>s\<close>, which no pattern of the source carries, are outside this type, and so are
  alternatives and quantified groups.
\<close>

datatype cclass =
    Lit nat             \<comment> \<open>one code unit\<close>
  | Digit               \<comment> \<open>\<^verbatim>\<open>\d\<close>\<close>
  | Space               \<comment> \<open>\<^verbatim>\<open>\s\<close>\<close>
  | AnyChar             \<comment> \<open>\<^verbatim>\<open>.\<close>\<close>
  | OneOf "nat list"    \<comment> \<open>\<^verbatim>\<open>[...]\<close> of single code units\<close>

datatype item =
    One cclass | Star cclass | Plus cclass | Opt cclass | Open nat | Close nat

record regex =
  items :: "item list"
  ignoreCase :: bool

text \<open>
  Canonicalisation under the flag \<^verbatim>\<open>i\<close>: a code unit is compared by its upper case.
  Only ASCII letters are changed here. The runtime also folds letters outside ASCII, so
  this is the runtime's comparison for the patterns whose literal code units are ASCII
  (a code unit outside ASCII never canonicalises to an ASCII one) or have no case
  mapping, as U+2082 in the source has; for other patterns under the flag it is not.
\<close>

definition canon :: "nat \<Rightarrow> nat" where
  "canon c = (if 97 \<le> c \<and> c \<le> 122 then c - 32 else c)"

fun cmatch :: "bool \<Rightarrow> cclass \<Rightarrow> nat \<Rightarrow> bool" where
  "cmatch ic (Lit a) x = (if ic then canon a = canon x else a = x)"
| "cmatch ic Digit x = is_digit x"
| "cmatch ic Space x = is_space x"
| "cmatch ic AnyChar x = (\<not> is_line_terminator x)"
| "cmatch ic (OneOf as) x =
     (if ic then List.member (map canon as) (canon x) else List.member as x)"

text \<open>
  The backtracking matcher. \<open>m ic its s pos op cl\<close> matches the items \<open>its\<close> against
  the input \<open>s\<close>, which starts at index \<open>pos\<close> of the text; \<open>op\<close> holds where each
  open group started and \<open>cl\<close> the groups captured so far. It returns the index where
  the match ends and the captures. A greedy quantifier takes as many characters as it
  can and gives them back one at a time when the rest of the pattern fails.
\<close>

type_synonym captures = "nat \<Rightarrow> (nat \<times> nat) option"

fun m :: "bool \<Rightarrow> item list \<Rightarrow> jsstring \<Rightarrow> nat \<Rightarrow> (nat \<Rightarrow> nat) \<Rightarrow> captures
            \<Rightarrow> (nat \<times> captures) option" where
  "m ic [] s pos op cl = Some (pos, cl)"
| "m ic (Open n # r) s pos op cl = m ic r s pos (op(n := pos)) cl"
| "m ic (Close n # r) s pos op cl = m ic r s pos op (cl(n := Some (op n, pos)))"
| "m ic (One c # r) [] pos op cl = None"
| "m ic (One c # r) (x # xs) pos op cl =
     (if cmatch ic c x then m ic r xs (Suc pos) op cl else None)"
| "m ic (Opt c # r) [] pos op cl = m ic r [] pos op cl"
| "m ic (Opt c # r) (x # xs) pos op cl =
     (if cmatch ic c x then
        (case m ic r xs (Suc pos) op cl of
           Some res \<Rightarrow> Some res
         | None \<Rightarrow> m ic r (x # xs) pos op cl)
      else m ic r (x # xs) pos op cl)"
| "m ic (Star c # r) [] pos op cl = m ic r [] pos op cl"
| "m ic (Star c # r) (x # xs) pos op cl =
     (if cmatch ic c x then
        (case m ic (Star c # r) xs (Suc pos) op cl of
           Some res \<Rightarrow> Some res
         | None \<Rightarrow> m ic r (x # xs) pos op cl)
      else m ic r (x # xs) pos op cl)"
| "m ic (Plus c # r) [] pos op cl = None"
| "m ic (Plus c # r) (x # xs) pos op cl =
     (if cmatch ic c x then m ic (Star c # r) xs (Suc pos) op cl else None)"

text \<open>
  The first match: the pattern is tried at index 0, then 1, and so on to the end of
  the text. The result is where the match starts, where it ends, and the captures.
\<close>

fun search :: "bool \<Rightarrow> item list \<Rightarrow> jsstring \<Rightarrow> nat \<Rightarrow> (nat \<times> nat \<times> captures) option" where
  "search ic its [] pos =
     (case m ic its [] pos (\<lambda>_. 0) (\<lambda>_. None) of
        Some (e, cl) \<Rightarrow> Some (pos, e, cl)
      | None \<Rightarrow> None)"
| "search ic its (x # xs) pos =
     (case m ic its (x # xs) pos (\<lambda>_. 0) (\<lambda>_. None) of
        Some (e, cl) \<Rightarrow> Some (pos, e, cl)
      | None \<Rightarrow> search ic its xs (Suc pos))"

fun is_open :: "item \<Rightarrow> bool" where
  "is_open (Open n) = True"
| "is_open _ = False"

definition ngroups :: "regex \<Rightarrow> nat" where
  "ngroups re = length (filter is_open (items re))"

definition slice :: "jsstring \<Rightarrow> nat \<times> nat \<Rightarrow> jsstring" where
  "slice s be = take (snd be - fst be) (drop (fst be) s)"

text \<open>
  \<^verbatim>\<open>text.match(regex)\<close> for a regex without the flag \<^verbatim>\<open>g\<close>: \<open>None\<close> is \<^verbatim>\<open>null\<close>;
  otherwise the array whose element 0 is the matched text and whose element \<open>n\<close> is
  the text of group \<open>n\<close>, or \<^verbatim>\<open>undefined\<close> (\<open>None\<close>) for a group that took no part.
\<close>

definition js_match :: "jsstring \<Rightarrow> regex \<Rightarrow> jsstring option list option" where
  "js_match text re =
     (case search (ignoreCase re) (items re) text 0 of
        None \<Rightarrow> None
      | Some (b, e, cl) \<Rightarrow>
          Some (Some (slice text (b, e))
                # map (\<lambda>n. map_option (slice text) (cl n)) [1 ..< Suc (ngroups re)]))"

text \<open>\<^verbatim>\<open>match[i]\<close>: an index past the end of the array reads \<^verbatim>\<open>undefined\<close>.\<close>

definition at_index :: "jsstring option list \<Rightarrow> nat \<Rightarrow> jsstring option" where
  "at_index arr i = (if i < length arr then arr ! i else None)"

text \<open>
  \<^verbatim>\<open>parseFloat\<close> converts its argument to a string first; \<^verbatim>\<open>undefined\<close> becomes the
  text \<^verbatim>\<open>undefined\<close>.
\<close>

definition to_string_opt :: "jsstring option \<Rightarrow> jsstring" where
  "to_string_opt v = (case v of None \<Rightarrow> str ''undefined'' | Some s \<Rightarrow> s)"

subsection \<open>What a pattern matches\<close>

text \<open>
  The words a pattern matches, said without the matcher, its positions, its captures and
  its order of attempts: one matcher takes one code unit of its class, \<^verbatim>\<open>?\<close> takes one
  or none, \<^verbatim>\<open>*\<close> takes a run of any length of code units of the class and \<^verbatim>\<open>+\<close> a
  run of at least one; the parentheses of a group take nothing.
\<close>

fun accepts :: "bool \<Rightarrow> item list \<Rightarrow> jsstring \<Rightarrow> bool" where
  "accepts ic [] w = (w = [])"
| "accepts ic (Open n # r) w = accepts ic r w"
| "accepts ic (Close n # r) w = accepts ic r w"
| "accepts ic (One c # r) w =
     (case w of [] \<Rightarrow> False | x # v \<Rightarrow> cmatch ic c x \<and> accepts ic r v)"
| "accepts ic (Opt c # r) w =
     (accepts ic r w \<or> (case w of [] \<Rightarrow> False | x # v \<Rightarrow> cmatch ic c x \<and> accepts ic r v))"
| "accepts ic (Star c # r) w =
     list_ex (\<lambda>k. list_all (cmatch ic c) (take k w) \<and> accepts ic r (drop k w))
             [0 ..< Suc (length w)]"
| "accepts ic (Plus c # r) w =
     list_ex (\<lambda>k. list_all (cmatch ic c) (take k w) \<and> accepts ic r (drop k w))
             [1 ..< Suc (length w)]"

declare accepts.simps(6,7) [simp del]





text \<open>
  A match of the items \<open>xs @ ys\<close> splits into a word that \<open>xs\<close> matches and a match of
  \<open>ys\<close> on the rest, which starts from the groups as \<open>xs\<close> left them.
\<close>

definition splits :: "bool \<Rightarrow> item list \<Rightarrow> item list \<Rightarrow> jsstring \<Rightarrow> nat \<Rightarrow> (nat \<Rightarrow> nat)
    \<Rightarrow> captures \<Rightarrow> nat \<Rightarrow> captures \<Rightarrow> bool" where
  "splits ic xs ys s pos op cl e cl' =
     (\<exists>k op' cl''. k \<le> length s \<and> accepts ic xs (take k s)
        \<and> m ic ys (drop k s) (pos + k) op' cl'' = Some (e, cl')
        \<and> (\<forall>n. Open n \<notin> set xs \<longrightarrow> op' n = op n)
        \<and> (\<forall>n. Close n \<notin> set xs \<longrightarrow> cl'' n = cl n))"

section \<open>metricsService.ts\<close>

text \<open>
  \<^verbatim>\<open>
  function extractNumber(text: string, regex: RegExp): number {
    const match = text.match(regex);
    return match ? parseFloat(match[1]) : 0;
  }
  \<close>
\<close>

definition extractNumber :: "jsstring \<Rightarrow> regex \<Rightarrow> jsnum" where
  "extractNumber text re =
     (case js_match text re of
        None \<Rightarrow> Num 0
      | Some match \<Rightarrow> parseFloat (to_string_opt (at_index match 1)))"

text \<open>The seven patterns of \<^verbatim>\<open>fetchLiveMetrics\<close>, in the order of the fields.\<close>

definition lits :: "string \<Rightarrow> item list" where
  "lits s = map (\<lambda>c. One (Lit (of_char c))) s"

text \<open>\<^verbatim>\<open>/\$(\d+\.?\d*)/\<close>\<close>

definition re_costSavings :: regex where
  "re_costSavings =
     \<lparr>items = [One (Lit 36), Open 1, Plus Digit, Opt (Lit 46), Star Digit, Close 1],
      ignoreCase = False\<rparr>"

text \<open>\<^verbatim>\<open>/(\d+)\s*kg\s*CO[<U+2082>2]/i\<close>\<close>

definition re_carbon :: regex where
  "re_carbon =
     \<lparr>items = [Open 1, Plus Digit, Close 1, Star Space] @ lits ''kg'' @ [Star Space]
              @ lits ''CO'' @ [One (OneOf [8322, 50])],
      ignoreCase = True\<rparr>"

text \<open>\<^verbatim>\<open>/(\d+)%.*efficiency/i\<close>\<close>

definition re_efficiency :: regex where
  "re_efficiency =
     \<lparr>items = [Open 1, Plus Digit, Close 1, One (Lit 37), Star AnyChar] @ lits ''efficiency'',
      ignoreCase = True\<rparr>"

text \<open>\<^verbatim>\<open>/(\d+\.?\d*)[<U+00B0><U+2103>]C/\<close>\<close>

definition re_temperature :: regex where
  "re_temperature =
     \<lparr>items = [Open 1, Plus Digit, Opt (Lit 46), Star Digit, Close 1,
               One (OneOf [176, 8451]), One (Lit 67)],
      ignoreCase = False\<rparr>"

text \<open>\<^verbatim>\<open>/(\d+)\s*W\/m/\<close>\<close>

definition re_solar :: regex where
  "re_solar =
     \<lparr>items = [Open 1, Plus Digit, Close 1, Star Space] @ lits ''W/m'',
      ignoreCase = False\<rparr>"

text \<open>\<^verbatim>\<open>/\$(\d+)\/MWh/\<close>\<close>

definition re_energyPrice :: regex where
  "re_energyPrice =
     \<lparr>items = [One (Lit 36), Open 1, Plus Digit, Close 1] @ lits ''/MWh'',
      ignoreCase = False\<rparr>"

text \<open>\<^verbatim>\<open>/(\d+)%.*renewable/i\<close>\<close>

definition re_renewable :: regex where
  "re_renewable =
     \<lparr>items = [Open 1, Plus Digit, Close 1, One (Lit 37), Star AnyChar] @ lits ''renewable'',
      ignoreCase = True\<rparr>"

subsection \<open>JSON values, fetch results and exceptions\<close>

text \<open>
  What \<^verbatim>\<open>response.json()\<close> can yield, with \<^verbatim>\<open>undefined\<close> for a property that is
  not there. An object keeps its members in the order of the text.
\<close>

datatype jsval =
    JUndefined
  | JNull
  | JBool bool
  | JNumber jsnum
  | JString jsstring
  | JArray "jsval list"
  | JObject "(jsstring \<times> jsval) list"

datatype js_error =
    NetworkError            \<comment> \<open>\<^verbatim>\<open>fetch\<close> rejected\<close>
  | SyntaxError             \<comment> \<open>\<^verbatim>\<open>response.json()\<close> rejected: the body is not JSON\<close>
  | TypeError               \<comment> \<open>a property of \<^verbatim>\<open>null\<close>, or a call of what is no function\<close>
  | Error jsstring          \<comment> \<open>\<^verbatim>\<open>new Error(message)\<close>\<close>

text \<open>
  The reply of \<^verbatim>\<open>fetch\<close>: the HTTP status, its text, and the body as
  \<^verbatim>\<open>response.json()\<close> parses it (\<open>None\<close> when that rejects).
\<close>

record response =
  status :: nat
  statusText :: jsstring
  body :: "jsval option"

datatype fetch_result = Rejected | Resolved response

definition ok :: "response \<Rightarrow> bool" where
  "ok r = (200 \<le> status r \<and> status r \<le> 299)"

text \<open>
  \<^verbatim>\<open>v.name\<close> for the property names the source reads (\<^verbatim>\<open>response\<close>, \<^verbatim>\<open>status\<close>,
  \<^verbatim>\<open>message\<close>, \<^verbatim>\<open>data\<close>), none of which a prototype defines: a TypeError on
  \<^verbatim>\<open>null\<close> and \<^verbatim>\<open>undefined\<close>, the member of an object (the last one of that name,
  as \<^verbatim>\<open>JSON.parse\<close> keeps it), \<^verbatim>\<open>undefined\<close> otherwise.
\<close>

fun get_prop :: "jsval \<Rightarrow> jsstring \<Rightarrow> js_error + jsval" where
  "get_prop JUndefined name = Inl TypeError"
| "get_prop JNull name = Inl TypeError"
| "get_prop (JObject kvs) name =
     (case map_of (rev kvs) name of None \<Rightarrow> Inr JUndefined | Some v \<Rightarrow> Inr v)"
| "get_prop v name = Inr JUndefined"

fun truthy :: "jsval \<Rightarrow> bool" where
  "truthy JUndefined = False"
| "truthy JNull = False"
| "truthy (JBool b) = b"
| "truthy (JNumber n) = truthy_num n"
| "truthy (JString s) = (s \<noteq> [])"
| "truthy (JArray xs) = True"
| "truthy (JObject kvs) = True"

subsection \<open>fetchLiveMetrics\<close>

record LiveMetrics =
  costSavingsToday :: jsnum
  carbonReduced :: jsnum
  efficiencyGain :: jsnum
  temperature :: jsnum
  solarIrradiance :: jsnum
  energyPrice :: jsnum
  renewablePct :: jsnum
  sustainabilityScore :: jsnum

text \<open>The object literal of the \<^verbatim>\<open>try\<close> block, for a response text.\<close>

definition metrics_of_text :: "jsstring \<Rightarrow> LiveMetrics" where
  "metrics_of_text text =
     \<lparr>costSavingsToday = extractNumber text re_costSavings,
      carbonReduced = extractNumber text re_carbon,
      efficiencyGain = or_else (extractNumber text re_efficiency) (Num 12),
      temperature = extractNumber text re_temperature,
      solarIrradiance = extractNumber text re_solar,
      energyPrice = extractNumber text re_energyPrice,
      renewablePct = extractNumber text re_renewable,
      sustainabilityScore = Num 87\<rparr>"

text \<open>The object literal of the \<^verbatim>\<open>catch\<close> block.\<close>

definition fallback :: LiveMetrics where
  "fallback =
     \<lparr>costSavingsToday = Num (171 / 2),
      carbonReduced = Num 180,
      efficiencyGain = Num 12,
      temperature = Num 24,
      solarIrradiance = Num 300,
      energyPrice = Num 65,
      renewablePct = Num 55,
      sustainabilityScore = Num 87\<rparr>"

text \<open>
  The \<^verbatim>\<open>try\<close> block: \<open>Inl\<close> is an exception thrown inside it. \<^verbatim>\<open>json.response\<close>
  throws on \<^verbatim>\<open>null\<close>; \<^verbatim>\<open>text.match\<close> is no function unless \<^verbatim>\<open>text\<close> is a string,
  and the first \<^verbatim>\<open>extractNumber\<close> call then throws. Neither the HTTP status nor
  \<^verbatim>\<open>json.status\<close> nor \<^verbatim>\<open>json.data\<close> is read.
\<close>

definition fetchLiveMetrics_try :: "fetch_result \<Rightarrow> js_error + LiveMetrics" where
  "fetchLiveMetrics_try fr =
     (case fr of
        Rejected \<Rightarrow> Inl NetworkError
      | Resolved r \<Rightarrow>
          (case body r of
             None \<Rightarrow> Inl SyntaxError
           | Some json \<Rightarrow>
               (case get_prop json (str ''response'') of
                  Inl e \<Rightarrow> Inl e
                | Inr v \<Rightarrow>
                    (case (if truthy v then v else JString []) of
                       JString text \<Rightarrow> Inr (metrics_of_text text)
                     | _ \<Rightarrow> Inl TypeError))))"

text \<open>The whole function: the \<^verbatim>\<open>catch\<close> block turns every exception into \<open>fallback\<close>.\<close>

definition fetchLiveMetrics :: "fetch_result \<Rightarrow> LiveMetrics" where
  "fetchLiveMetrics fr =
     (case fetchLiveMetrics_try fr of Inl e \<Rightarrow> fallback | Inr metrics \<Rightarrow> metrics)"

section \<open>MetricsHero.tsx: the poller\<close>

text \<open>
  The component's state and its initial value. The effect starts one fetch at mount and
  one at every tick of the interval; when a fetch resolves, its callback runs:
  \<^verbatim>\<open>data => { setMetrics(data); setIsLoading(false) }\<close> for the first fetch,
  \<^verbatim>\<open>setMetrics\<close> for the fetches of the interval.
\<close>

record hero_state =
  metrics :: LiveMetrics
  isLoading :: bool

definition initial_state :: hero_state where
  "initial_state =
     \<lparr>metrics =
        \<lparr>costSavingsToday = Num 0, carbonReduced = Num 0, efficiencyGain = Num 0,
         temperature = Num 0, solarIrradiance = Num 0, energyPrice = Num 0,
         renewablePct = Num 0, sustainabilityScore = Num 0\<rparr>,
      isLoading = True\<rparr>"

datatype resolved = MountFetch fetch_result | IntervalFetch fetch_result

fun on_resolved :: "hero_state \<Rightarrow> resolved \<Rightarrow> hero_state" where
  "on_resolved s (MountFetch fr) = \<lparr>metrics = fetchLiveMetrics fr, isLoading = False\<rparr>"
| "on_resolved s (IntervalFetch fr) = s\<lparr>metrics := fetchLiveMetrics fr\<rparr>"

text \<open>The state after a sequence of fetches has resolved, in the order they resolve.\<close>

definition poll :: "resolved list \<Rightarrow> hero_state" where
  "poll rs = foldl on_resolved initial_state rs"

subsection \<open>Snapshots and replies used in the statements\<close>

text \<open>A field holds a number: any value of the type but \<open>NaN\<close>.\<close>

fun is_number :: "jsnum \<Rightarrow> bool" where
  "is_number (Num r) = True"
| "is_number NaN = False"
| "is_number PosInfinity = True"
| "is_number NegInfinity = True"

definition all_fields_numbers :: "LiveMetrics \<Rightarrow> bool" where
  "all_fields_numbers x =
     (is_number (costSavingsToday x) \<and> is_number (carbonReduced x)
      \<and> is_number (efficiencyGain x) \<and> is_number (temperature x)
      \<and> is_number (solarIrradiance x) \<and> is_number (energyPrice x)
      \<and> is_number (renewablePct x) \<and> is_number (sustainabilityScore x))"

text \<open>A successful reply of the backend: status 200 and \<^verbatim>\<open>{status: "success", response: text}\<close>.\<close>

definition ok_reply :: "jsstring \<Rightarrow> fetch_result" where
  "ok_reply text =
     Resolved \<lparr>status = 200, statusText = str ''OK'',
               body = Some (JObject [(str ''status'', JString (str ''success'')),
                                      (str ''response'', JString text)])\<rparr>"

text \<open>The same with structured data: \<^verbatim>\<open>{status: "success", response: text, data: d}\<close>.\<close>

definition ok_reply_with_data :: "jsstring \<Rightarrow> jsval \<Rightarrow> fetch_result" where
  "ok_reply_with_data text d =
     Resolved \<lparr>status = 200, statusText = str ''OK'',
               body = Some (JObject [(str ''status'', JString (str ''success'')),
                                      (str ''response'', JString text),
                                      (str ''data'', d)])\<rparr>"

text \<open>A reply in which the backend reports an error: \<^verbatim>\<open>{status: "error", message: msg}\<close>.\<close>

definition error_reply :: "nat \<Rightarrow> jsstring \<Rightarrow> fetch_result" where
  "error_reply code msg =
     Resolved \<lparr>status = code, statusText = [],
               body = Some (JObject [(str ''status'', JString (str ''error'')),
                                      (str ''message'', JString msg)])\<rparr>"

text \<open>The snapshot in which no pattern matched.\<close>

definition no_match_metrics :: LiveMetrics where
  "no_match_metrics =
     \<lparr>costSavingsToday = Num 0, carbonReduced = Num 0, efficiencyGain = Num 12,
      temperature = Num 0, solarIrradiance = Num 0, energyPrice = Num 0,
      renewablePct = Num 0, sustainabilityScore = Num 87\<rparr>"

section \<open>The chat components and climateAgentService.ts\<close>

text \<open>
  A template literal converts the value it embeds to a string, which can throw. The text
  of a number is what the runtime prints for it and is taken as the parameter \<open>fmt\<close>.
  The elements of an array are converted from left to right and joined by commas,
  \<^verbatim>\<open>null\<close> and \<^verbatim>\<open>undefined\<close> elements as empty text. An object parsed from JSON has
  no callable member: when it has a member \<^verbatim>\<open>toString\<close> of its own, that member hides
  the method of the prototype and the conversion throws a TypeError; otherwise the
  method of the prototype gives \<^verbatim>\<open>[object Object]\<close>.
\<close>

definition join_comma :: "jsstring list \<Rightarrow> jsstring" where
  "join_comma xs = concat (case xs of [] \<Rightarrow> [] | y # ys \<Rightarrow> y # map (\<lambda>z. 44 # z) ys)"

text \<open>The texts of the elements, or the first exception among them.\<close>

fun first_error :: "(js_error + jsstring) list \<Rightarrow> js_error + jsstring list" where
  "first_error [] = Inr []"
| "first_error (Inl e # rs) = Inl e"
| "first_error (Inr s # rs) =
     (case first_error rs of Inl e \<Rightarrow> Inl e | Inr ss \<Rightarrow> Inr (s # ss))"

fun to_string :: "(jsnum \<Rightarrow> jsstring) \<Rightarrow> jsval \<Rightarrow> js_error + jsstring" where
  "to_string fmt JUndefined = Inr (str ''undefined'')"
| "to_string fmt JNull = Inr (str ''null'')"
| "to_string fmt (JBool b) = Inr (if b then str ''true'' else str ''false'')"
| "to_string fmt (JNumber n) = Inr (fmt n)"
| "to_string fmt (JString s) = Inr s"
| "to_string fmt (JArray xs) =
     (case first_error
             (map (\<lambda>x. if x = JNull \<or> x = JUndefined then Inr [] else to_string fmt x) xs) of
        Inl e \<Rightarrow> Inl e
      | Inr ss \<Rightarrow> Inr (join_comma ss))"
| "to_string fmt (JObject kvs) =
     (if map_of kvs (str ''toString'') = None then Inr (str ''[object Object]'')
      else Inl TypeError)"

text \<open>
  What \<^verbatim>\<open>callAgent\<close> of \<^verbatim>\<open>FloatingChat.tsx\<close> returns: the object
  \<^verbatim>\<open>{ text, data }\<close>, with \<^verbatim>\<open>undefined\<close> for a \<^verbatim>\<open>data\<close> that the object literal
  leaves out. The object has no \<^verbatim>\<open>status\<close> member.
\<close>

record chat_result =
  result_text :: jsval
  result_data :: jsval

text \<open>The prefix U+26A0 U+FE0F and a space, and the text after U+274C and a space.\<close>

definition warning_prefix :: jsstring where
  "warning_prefix = [9888, 65039, 32]"

definition connect_error_text :: jsstring where
  "connect_error_text = [10060, 32] @ str ''Error connecting to agent''"

text \<open>
  The \<^verbatim>\<open>try\<close> block of \<^verbatim>\<open>callAgent\<close> in \<^verbatim>\<open>FloatingChat.tsx\<close>: \<open>Inl\<close> is an
  exception thrown inside it. The HTTP status is not read.
\<close>

definition callAgent_try :: "(jsnum \<Rightarrow> jsstring) \<Rightarrow> fetch_result \<Rightarrow> js_error + chat_result" where
  "callAgent_try fmt fr =
     (case fr of
        Rejected \<Rightarrow> Inl NetworkError
      | Resolved r \<Rightarrow>
          (case body r of
             None \<Rightarrow> Inl SyntaxError
           | Some json \<Rightarrow>
               (case get_prop json (str ''status'') of
                  Inl e \<Rightarrow> Inl e
                | Inr st \<Rightarrow>
                    if st = JString (str ''error'') then
                      (case get_prop json (str ''message'') of
                         Inl e \<Rightarrow> Inl e
                       | Inr msg \<Rightarrow>
                           (case to_string fmt msg of
                              Inl e \<Rightarrow> Inl e
                            | Inr s \<Rightarrow>
                                Inr \<lparr>result_text = JString (warning_prefix @ s),
                                     result_data = JUndefined\<rparr>))
                    else
                      (case get_prop json (str ''response'') of
                         Inl e \<Rightarrow> Inl e
                       | Inr v \<Rightarrow>
                           (case get_prop json (str ''data'') of
                              Inl e \<Rightarrow> Inl e
                            | Inr d \<Rightarrow>
                                Inr \<lparr>result_text =
                                       (if truthy v then v else JString (str ''No response'')),
                                     result_data = d\<rparr>)))))"

text \<open>
  The whole function, as its caller sees it: \<open>Inr\<close> is a returned value and \<open>Inl\<close>
  an exception that reaches the caller. The \<^verbatim>\<open>catch\<close> block returns the
  connection-error text for every exception of the \<^verbatim>\<open>try\<close> block.
\<close>

definition callAgent :: "(jsnum \<Rightarrow> jsstring) \<Rightarrow> fetch_result \<Rightarrow> js_error + chat_result" where
  "callAgent fmt fr =
     (case callAgent_try fmt fr of
        Inl e \<Rightarrow> Inr \<lparr>result_text = JString connect_error_text, result_data = JUndefined\<rparr>
      | Inr res \<Rightarrow> Inr res)"

text \<open>
  \<^verbatim>\<open>callAgent\<close> of \<^verbatim>\<open>IntegratedChat.tsx\<close> returns the text alone, by the same steps.
\<close>

definition callAgent_integrated_try :: "(jsnum \<Rightarrow> jsstring) \<Rightarrow> fetch_result \<Rightarrow> js_error + jsval" where
  "callAgent_integrated_try fmt fr =
     (case fr of
        Rejected \<Rightarrow> Inl NetworkError
      | Resolved r \<Rightarrow>
          (case body r of
             None \<Rightarrow> Inl SyntaxError
           | Some json \<Rightarrow>
               (case get_prop json (str ''status'') of
                  Inl e \<Rightarrow> Inl e
                | Inr st \<Rightarrow>
                    if st = JString (str ''error'') then
                      (case get_prop json (str ''message'') of
                         Inl e \<Rightarrow> Inl e
                       | Inr msg \<Rightarrow>
                           (case to_string fmt msg of
                              Inl e \<Rightarrow> Inl e
                            | Inr s \<Rightarrow> Inr (JString (warning_prefix @ s))))
                    else
                      (case get_prop json (str ''response'') of
                         Inl e \<Rightarrow> Inl e
                       | Inr v \<Rightarrow>
                           Inr (if truthy v then v else JString (str ''No response''))))))"

definition callAgent_integrated :: "(jsnum \<Rightarrow> jsstring) \<Rightarrow> fetch_result \<Rightarrow> js_error + jsval" where
  "callAgent_integrated fmt fr =
     (case callAgent_integrated_try fmt fr of
        Inl e \<Rightarrow> Inr (JString connect_error_text)
      | Inr v \<Rightarrow> Inr v)"

text \<open>
  \<^verbatim>\<open>invokeClimateAgent\<close> of \<^verbatim>\<open>climateAgentService.ts\<close>: it throws on a status that
  is not 2xx, and its \<^verbatim>\<open>catch\<close> block logs the exception and throws it again, so
  \<open>Inl\<close> is an exception that reaches the caller.
\<close>

definition invokeClimateAgent :: "fetch_result \<Rightarrow> js_error + jsval" where
  "invokeClimateAgent fr =
     (case fr of
        Rejected \<Rightarrow> Inl NetworkError
      | Resolved r \<Rightarrow>
          if \<not> ok r then Inl (Error (str ''Agent invocation failed: '' @ statusText r))
          else (case body r of None \<Rightarrow> Inl SyntaxError | Some d \<Rightarrow> Inr d))"

section \<open>The response cache\<close>

text \<open>
  The cache lives in the backend, whose code is not among the sources; the definitions
  of this section follow the specification's description of it.
\<close>

text \<open>
  Modelled from the spec: the result of one invocation, \<^verbatim>\<open>{status: success|error,
  responseText, structuredData?}\<close>. The backend's reasoning call is missing; a stable
  backend is a function from the prompt to such a result.
\<close>

datatype agent_status = StatusSuccess | StatusError

datatype agent_result = AgentResult agent_status jsstring "jsval option"

text \<open>
  Modelled from the spec: the cached reply \<^verbatim>\<open>{responseText, structuredData,
  timestamp}\<close>, keyed by the verbatim prompt text. The backend's cache is missing; it is
  a list of entries, each under its prompt.
\<close>

record cached_reply =
  responseText :: jsstring
  structuredData :: "jsval option"
  timestamp :: int

type_synonym cache = "(jsstring \<times> cached_reply) list"

text \<open>Modelled from the spec: the TTL of the missing cache, 5 minutes, in seconds.\<close>

definition TTL :: int where
  "TTL = 300"

text \<open>Modelled from the spec: the capacity of the missing cache, 100 entries.\<close>

definition CAPACITY :: nat where
  "CAPACITY = 100"

text \<open>
  Modelled from the spec: an entry of the missing cache is valid while
  \<^verbatim>\<open>now - timestamp < TTL\<close>.
\<close>

definition valid_at :: "int \<Rightarrow> cached_reply \<Rightarrow> bool" where
  "valid_at now e = (now - timestamp e < TTL)"

text \<open>
  Modelled from the spec: the read of the missing cache on every request; an expired
  entry is not returned.
\<close>

definition cache_lookup :: "cache \<Rightarrow> int \<Rightarrow> jsstring \<Rightarrow> cached_reply option" where
  "cache_lookup c now prompt =
     (case map_of c prompt of
        None \<Rightarrow> None
      | Some e \<Rightarrow> if valid_at now e then Some e else None)"

text \<open>
  Modelled from the spec: the eviction of the missing cache, which removes the oldest
  entry (the one with the least timestamp) when the cache is full.
\<close>

definition oldest :: "jsstring \<times> cached_reply \<Rightarrow> cache \<Rightarrow> jsstring \<times> cached_reply" where
  "oldest x xs = foldl (\<lambda>b y. if timestamp (snd y) < timestamp (snd b) then y else b) x xs"

definition evict_oldest :: "cache \<Rightarrow> cache" where
  "evict_oldest c = (case c of [] \<Rightarrow> [] | x # xs \<Rightarrow> remove1 (oldest x xs) c)"

text \<open>
  Modelled from the spec: the write of the missing cache after a successful reasoning
  call. An expired entry of the same prompt is replaced, and the oldest entry is
  evicted first when the capacity is reached.
\<close>

definition store :: "cache \<Rightarrow> jsstring \<Rightarrow> cached_reply \<Rightarrow> cache" where
  "store c prompt e =
     (let others = filter (\<lambda>kv. fst kv \<noteq> prompt) c;
          kept = (if CAPACITY \<le> length others then evict_oldest others else others)
      in kept @ [(prompt, e)])"

text \<open>
  Modelled from the spec: the missing gateway endpoint. A valid cached reply is returned
  as it is; on a miss the backend is called, and a successful result is stored with the
  time of the call. The result is paired with the cache after the request.
\<close>

definition invoke :: "(jsstring \<Rightarrow> agent_result) \<Rightarrow> cache \<Rightarrow> int \<Rightarrow> jsstring
                       \<Rightarrow> agent_result \<times> cache" where
  "invoke backend c now prompt =
     (case cache_lookup c now prompt of
        Some e \<Rightarrow> (AgentResult StatusSuccess (responseText e) (structuredData e), c)
      | None \<Rightarrow>
          (case backend prompt of
             AgentResult StatusSuccess t d \<Rightarrow>
               (AgentResult StatusSuccess t d,
                store c prompt \<lparr>responseText = t, structuredData = d, timestamp = now\<rparr>)
           | AgentResult StatusError t d \<Rightarrow> (AgentResult StatusError t d, c)))"

text \<open>
  Modelled from the spec: the missing cache after a history of requests (time and
  prompt), each served by \<open>invoke\<close>.
\<close>

fun serve :: "(jsstring \<Rightarrow> agent_result) \<Rightarrow> cache \<Rightarrow> (int \<times> jsstring) list \<Rightarrow> cache" where
  "serve backend c [] = c"
| "serve backend c ((now, prompt) # rs) = serve backend (snd (invoke backend c now prompt)) rs"

text \<open>Every cached reply is what the backend answers to its prompt.\<close>

fun consistent :: "(jsstring \<Rightarrow> agent_result) \<Rightarrow> cache \<Rightarrow> bool" where
  "consistent backend [] = True"
| "consistent backend (kv # c) =
     (backend (fst kv) = AgentResult StatusSuccess (responseText (snd kv)) (structuredData (snd kv))
      \<and> consistent backend c)"

text \<open>A text for numbers, for statements in which no number is printed.\<close>

definition no_number_text :: "jsnum \<Rightarrow> jsstring" where
  "no_number_text n = []"

section \<open>Properties of fetchLiveMetrics\<close>

text \<open>
  C9: whatever the fetch does, the \<open>sustainabilityScore\<close> of the snapshot that
  \<open>fetchLiveMetrics\<close> returns is the constant 87: the success branch and the
  fallback both write 87.
\<close>

theorem sustainabilityScore_constant:
  "sustainabilityScore (fetchLiveMetrics fr) = Num 87"
  by (simp add: fetchLiveMetrics_def fetchLiveMetrics_try_def metrics_of_text_def fallback_def
      split: fetch_result.splits option.splits sum.splits jsval.splits)

subsection \<open>What the matcher captures\<close>

lemma digit_not_space: "is_digit x \<Longrightarrow> \<not> is_space x"
  by (auto simp: is_digit_def is_space_def)

lemma parse_unsigned_digit: "is_digit x \<Longrightarrow> is_number (parse_unsigned (x # xs))"
  by (simp add: parse_unsigned_def Let_def split: list.splits)

lemma parseFloat_digit: "is_digit x \<Longrightarrow> is_number (parseFloat (x # xs))"
  using parse_unsigned_digit[of x xs]
  by (auto simp add: parseFloat_def digit_not_space is_digit_def)

lemma m_keeps: "m ic its s pos op cl = Some (e, cl') \<Longrightarrow> Close n \<notin> set its \<Longrightarrow> cl' n = cl n"
  by (induction ic its s pos op cl rule: m.induct) (auto split: if_splits option.splits)

lemma m_close: "m ic its s pos op cl = Some (e, cl') \<Longrightarrow> Open n \<notin> set its \<Longrightarrow> Close n \<in> set its
   \<Longrightarrow> \<exists>e1. cl' n = Some (op n, e1) \<and> pos \<le> e1"
proof (induction ic its s pos op cl rule: m.induct)
  case (3 ic k r s pos op cl)
  show ?case
  proof (cases "Close n \<in> set r")
    case True
    from "3.prems"(1) have "m ic r s pos op (cl(k := Some (op k, pos))) = Some (e, cl')"
      by simp
    from "3.IH"[OF this] "3.prems"(2) True show ?thesis by simp
  next
    case False
    with 3 have k: "k = n" by simp
    from 3 have "m ic r s pos op (cl(n := Some (op n, pos))) = Some (e, cl')"
      by (simp add: k)
    from m_keeps[OF this False] show ?thesis by auto
  qed
qed (fastforce split: if_splits option.splits)+

lemma m_group_at:
  assumes "m ic (Open n # Plus Digit # r) (drop p text) p op cl = Some (e, cl')"
    and "Open n \<notin> set r" and "Close n \<in> set r"
  shows "\<exists>x xs. map_option (slice text) (cl' n) = Some (x # xs) \<and> is_digit x"
proof (cases "drop p text")
  case Nil
  with assms(1) show ?thesis by simp
next
  case (Cons x xs)
  with assms(1) have d: "is_digit x"
    and st: "m ic (Star Digit # r) xs (Suc p) (op(n := p)) cl = Some (e, cl')"
    by (auto split: if_splits)
  from m_close[OF st, of n] assms(2,3)
  obtain e1 where e1: "cl' n = Some (p, e1)" "Suc p \<le> e1" by auto
  then have "e1 - p = Suc (e1 - Suc p)" by arith
  then have "slice text (p, e1) = x # take (e1 - Suc p) xs"
    using Cons by (simp add: slice_def)
  with d e1 show ?thesis by simp
qed

lemma m_one_group_at:
  assumes "m ic (One c # Open n # Plus Digit # r) (drop p text) p op cl = Some (e, cl')"
    and "Open n \<notin> set r" and "Close n \<in> set r"
  shows "\<exists>x xs. map_option (slice text) (cl' n) = Some (x # xs) \<and> is_digit x"
proof (cases "drop p text")
  case Nil
  with assms(1) show ?thesis by simp
next
  case (Cons y ys)
  then have ys: "ys = drop (Suc p) text"
    by (metis drop_Suc list.sel(3) tl_drop)
  from assms(1) Cons have "m ic (Open n # Plus Digit # r) (drop (Suc p) text) (Suc p) op cl = Some (e, cl')"
    unfolding ys[symmetric] by (simp split: if_splits)
  from m_group_at[OF this assms(2,3)] show ?thesis .
qed

lemma search_found:
  "search ic its s pos = Some (b, e, cl) \<Longrightarrow>
     pos \<le> b \<and> m ic its (drop (b - pos) s) b (\<lambda>_. 0) (\<lambda>_. None) = Some (e, cl)"
proof (induction s arbitrary: pos)
  case Nil
  then show ?case by (auto split: option.splits)
next
  case (Cons x xs)
  show ?case
  proof (cases "m ic its (x # xs) pos (\<lambda>_. 0) (\<lambda>_. None)")
    case None
    with Cons.prems have "search ic its xs (Suc pos) = Some (b, e, cl)" by simp
    from Cons.IH[OF this] have le: "Suc pos \<le> b"
      and mm: "m ic its (drop (b - Suc pos) xs) b (\<lambda>_. 0) (\<lambda>_. None) = Some (e, cl)"
      by auto
    from le have "b - pos = Suc (b - Suc pos)" by arith
    with le mm show ?thesis by simp
  next
    case (Some a)
    with Cons.prems show ?thesis by (cases a) auto
  qed
qed


lemma js_match_group1:
  assumes "js_match text re = Some match" and "0 < ngroups re"
  shows "\<exists>b e cl. search (ignoreCase re) (items re) text 0 = Some (b, e, cl) \<and>
           at_index match 1 = map_option (slice text) (cl 1)"
  using assms
  by (auto simp del: upt_Suc simp add: js_match_def at_index_def upt_conv_Cons split: option.splits)

lemma extractNumber_number_group:
  assumes "items re = Open 1 # Plus Digit # r \<or> items re = One c # Open 1 # Plus Digit # r"
    and "Open 1 \<notin> set r" and "Close 1 \<in> set r"
  shows "is_number (extractNumber text re)"
proof (cases "js_match text re")
  case None
  then show ?thesis by (simp add: extractNumber_def)
next
  case (Some match)
  from assms(1) have ng: "0 < ngroups re" by (auto simp: ngroups_def)
  from js_match_group1[OF Some ng] obtain b e cl where
    s: "search (ignoreCase re) (items re) text 0 = Some (b, e, cl)"
    and a: "at_index match 1 = map_option (slice text) (cl 1)" by blast
  from search_found[OF s]
  have mm: "m (ignoreCase re) (items re) (drop b text) b (\<lambda>_. 0) (\<lambda>_. None) = Some (e, cl)"
    by simp
  from assms(1) have "\<exists>x xs. map_option (slice text) (cl 1) = Some (x # xs) \<and> is_digit x"
  proof
    assume "items re = Open 1 # Plus Digit # r"
    with mm m_group_at[of "ignoreCase re" "1" r b "text" _ _ e cl] assms(2,3) show ?thesis by simp
  next
    assume "items re = One c # Open 1 # Plus Digit # r"
    with mm m_one_group_at[of "ignoreCase re" c "1" r b "text" _ _ e cl] assms(2,3) show ?thesis by simp
  qed
  then obtain x xs where "at_index match 1 = Some (x # xs)" "is_digit x" using a by auto
  with Some parseFloat_digit[of x xs] show ?thesis
    by (simp add: extractNumber_def to_string_opt_def)
qed

lemma costSavings_number: "is_number (extractNumber text re_costSavings)"
  by (rule extractNumber_number_group[where c = "Lit 36" and r = "[Opt (Lit 46), Star Digit, Close 1]"])
     (simp_all add: re_costSavings_def)
lemma carbon_number: "is_number (extractNumber text re_carbon)"
  by (rule extractNumber_number_group[where r = "tl (tl (items re_carbon))"])
     (simp_all add: re_carbon_def lits_def)
lemma efficiency_number: "is_number (extractNumber text re_efficiency)"
  by (rule extractNumber_number_group[where r = "tl (tl (items re_efficiency))"])
     (simp_all add: re_efficiency_def lits_def)
lemma temperature_number: "is_number (extractNumber text re_temperature)"
  by (rule extractNumber_number_group[where r = "tl (tl (items re_temperature))"])
     (simp_all add: re_temperature_def lits_def)
lemma solar_number: "is_number (extractNumber text re_solar)"
  by (rule extractNumber_number_group[where r = "tl (tl (items re_solar))"])
     (simp_all add: re_solar_def lits_def)
lemma energyPrice_number: "is_number (extractNumber text re_energyPrice)"
  by (rule extractNumber_number_group[where c = "Lit 36" and r = "tl (tl (tl (items re_energyPrice)))"])
     (simp_all add: re_energyPrice_def lits_def)
lemma renewable_number: "is_number (extractNumber text re_renewable)"
  by (rule extractNumber_number_group[where r = "tl (tl (items re_renewable))"])
     (simp_all add: re_renewable_def lits_def)

subsection \<open>Evaluation of the model on concrete inputs\<close>

lemmas eval_defs = extractNumber_def js_match_def str_def ngroups_def at_index_def
  to_string_opt_def slice_def parseFloat_def parse_unsigned_def is_digit_def is_space_def
  is_line_terminator_def canon_def digits_value_def scale10_def lits_def

lemma metrics_of_text_complete: "all_fields_numbers (metrics_of_text text)"
  using costSavings_number[of "text"] carbon_number[of "text"] efficiency_number[of "text"]
    temperature_number[of "text"] solar_number[of "text"] energyPrice_number[of "text"]
    renewable_number[of "text"]
  by (simp add: all_fields_numbers_def metrics_of_text_def or_else_def)

lemma fallback_complete: "all_fields_numbers fallback"
  by (simp add: all_fields_numbers_def fallback_def)

lemma fetchLiveMetrics_complete: "all_fields_numbers (fetchLiveMetrics fr)"
  by (simp add: fetchLiveMetrics_def fetchLiveMetrics_try_def metrics_of_text_complete
      fallback_complete split: fetch_result.splits option.splits sum.splits jsval.splits)

lemma on_resolved_complete: "all_fields_numbers (metrics (on_resolved s ev))"
  by (cases ev) (simp_all add: fetchLiveMetrics_complete)

lemma foldl_complete:
  "all_fields_numbers (metrics s) \<Longrightarrow> all_fields_numbers (metrics (foldl on_resolved s rs))"
  by (induction rs arbitrary: s) (simp_all add: on_resolved_complete)

lemma fetch_ok_reply: "fetchLiveMetrics (ok_reply text) = metrics_of_text text"
  by (simp add: fetchLiveMetrics_def fetchLiveMetrics_try_def ok_reply_def str_def)

lemma fetch_ok_reply_with_data: "fetchLiveMetrics (ok_reply_with_data text d) = metrics_of_text text"
  by (simp add: fetchLiveMetrics_def fetchLiveMetrics_try_def ok_reply_with_data_def str_def)

lemma fetch_error_reply: "fetchLiveMetrics (error_reply code msg) = metrics_of_text []"
  by (simp add: fetchLiveMetrics_def fetchLiveMetrics_try_def error_reply_def str_def)

lemma fetch_rejected: "fetchLiveMetrics Rejected = fallback"
  by (simp add: fetchLiveMetrics_def fetchLiveMetrics_try_def)

lemma fetch_not_json:
  "fetchLiveMetrics (Resolved \<lparr>status = code, statusText = t, body = None\<rparr>) = fallback"
  by (simp add: fetchLiveMetrics_def fetchLiveMetrics_try_def)

lemma extract_99: "extractNumber (str ''Saved $99 today'') re_costSavings = Num 99"
  by (simp add: eval_defs re_costSavings_def)


lemma no_match_costSavings: "js_match (str ''no numbers here'') re_costSavings = None"
  by (simp add: eval_defs re_costSavings_def)
lemma no_match_carbon: "js_match (str ''no numbers here'') re_carbon = None"
  by (simp add: eval_defs re_carbon_def)
lemma no_match_efficiency: "js_match (str ''no numbers here'') re_efficiency = None"
  by (simp add: eval_defs re_efficiency_def)
lemma no_match_temperature: "js_match (str ''no numbers here'') re_temperature = None"
  by (simp add: eval_defs re_temperature_def)
lemma no_match_solar: "js_match (str ''no numbers here'') re_solar = None"
  by (simp add: eval_defs re_solar_def)
lemma no_match_energyPrice: "js_match (str ''no numbers here'') re_energyPrice = None"
  by (simp add: eval_defs re_energyPrice_def)
lemma no_match_renewable: "js_match (str ''no numbers here'') re_renewable = None"
  by (simp add: eval_defs re_renewable_def)

lemma extract_none: "extractNumber (str ''no numbers here'') re_costSavings = Num 0"
  by (simp add: extractNumber_def no_match_costSavings)

lemma metrics_of_text_empty: "metrics_of_text [] = no_match_metrics"
  by (simp add: metrics_of_text_def no_match_metrics_def or_else_def eval_defs
      re_costSavings_def re_carbon_def re_efficiency_def re_temperature_def re_solar_def
      re_energyPrice_def re_renewable_def)


section \<open>The claims about the snapshot\<close>

text \<open>
  C2: whatever the fetch does (success, exception, malformed or missing data), every one
  of the eight fields of the snapshot that \<open>fetchLiveMetrics\<close> returns holds a number,
  and so does every field of the snapshot the poller exposes after any sequence of
  resolved fetches. The fields are there by the type of the record; the theorem adds that
  none of them is \<open>NaN\<close>, since the first group of each of the seven patterns
  starts with a digit.
\<close>

theorem snapshot_complete:
  "all_fields_numbers (fetchLiveMetrics fr) \<and> all_fields_numbers (metrics (poll rs))"
proof -
  have "all_fields_numbers (metrics initial_state)"
    by (simp add: initial_state_def all_fields_numbers_def)
  then show ?thesis
    by (simp add: poll_def foldl_complete fetchLiveMetrics_complete)
qed

text \<open>
  C1, as the claim states it, fails: after a successful fetch whose text is
  \<^verbatim>\<open>Saved $99 today\<close>, a fetch that is rejected changes the exposed snapshot (its cost
  savings go from 99 to the fallback 85.5).
\<close>

theorem failed_fetch_changes_snapshot:
  "metrics (on_resolved (on_resolved initial_state (MountFetch (ok_reply (str ''Saved $99 today''))))
                        (IntervalFetch Rejected))
   \<noteq> metrics (on_resolved initial_state (MountFetch (ok_reply (str ''Saved $99 today''))))"
proof
  assume "metrics (on_resolved (on_resolved initial_state
                      (MountFetch (ok_reply (str ''Saved $99 today'')))) (IntervalFetch Rejected))
          = metrics (on_resolved initial_state (MountFetch (ok_reply (str ''Saved $99 today''))))"
  then have "costSavingsToday (fetchLiveMetrics Rejected)
             = costSavingsToday (fetchLiveMetrics (ok_reply (str ''Saved $99 today'')))"
    by simp
  then show False
    by (simp add: fetch_ok_reply fetch_rejected metrics_of_text_def extract_99 fallback_def)
qed

text \<open>
  C1 as amended: whatever snapshot was exposed before, after a fetch that fails with an
  exception (the request is rejected, or the body of the reply is not JSON) the exposed
  snapshot is the fixed fallback snapshot, and after a reply whose JSON body reports an
  error and carries no response text it is the snapshot in which no pattern matched.
  Nothing of the earlier snapshot is kept.
\<close>

theorem failed_fetch_exposes_fallback:
  "metrics (on_resolved s (IntervalFetch Rejected)) = fallback
   \<and> metrics (on_resolved s (IntervalFetch
        (Resolved \<lparr>status = code, statusText = t, body = None\<rparr>))) = fallback
   \<and> metrics (on_resolved s (IntervalFetch (error_reply code msg))) = no_match_metrics"
  by (simp add: fetch_rejected fetch_not_json fetch_error_reply metrics_of_text_empty)

text \<open>
  C3, as the claim states it, fails: for a reply with the structured data
  \<^verbatim>\<open>{cost_savings: 42}\<close> and the text \<^verbatim>\<open>Saved $99 today\<close>, the cost savings of the
  snapshot are 99, not 42.
\<close>

theorem structured_data_not_preferred:
  "costSavingsToday (fetchLiveMetrics (ok_reply_with_data (str ''Saved $99 today'')
       (JObject [(str ''cost_savings'', JNumber (Num 42))]))) = Num 99
   \<and> costSavingsToday (fetchLiveMetrics (ok_reply_with_data (str ''Saved $99 today'')
       (JObject [(str ''cost_savings'', JNumber (Num 42))]))) \<noteq> Num 42"
  by (simp add: fetch_ok_reply_with_data metrics_of_text_def extract_99)

text \<open>
  C3 as amended: the snapshot of a reply with structured data and response text is the
  snapshot of the response text alone; the structured data is not read, and the cost
  savings are what the pattern extracts from the text.
\<close>

theorem structured_data_ignored:
  "fetchLiveMetrics (ok_reply_with_data text d) = fetchLiveMetrics (ok_reply text)
   \<and> costSavingsToday (fetchLiveMetrics (ok_reply_with_data text d))
       = extractNumber text re_costSavings"
  by (simp add: fetch_ok_reply_with_data fetch_ok_reply metrics_of_text_def)

text \<open>
  C5, as the claim states it, fails: with cost savings of 99 exposed, a successful fetch
  whose text is \<^verbatim>\<open>no numbers here\<close> exposes cost savings of 0.
\<close>

theorem no_match_overwrites_good_value:
  "costSavingsToday (metrics (on_resolved
       (on_resolved initial_state (MountFetch (ok_reply (str ''Saved $99 today''))))
       (IntervalFetch (ok_reply (str ''no numbers here''))))) = Num 0
   \<and> costSavingsToday (metrics
       (on_resolved initial_state (MountFetch (ok_reply (str ''Saved $99 today''))))) = Num 99"
  by (simp add: fetch_ok_reply metrics_of_text_def extract_99 extract_none)

text \<open>
  C5 as amended: in the polling path, when the pattern of a field does not match the
  response text of a successful fetch, the field of the exposed snapshot is 0 (12 for
  the efficiency gain), whatever its value was before.
\<close>

theorem no_match_gives_zero:
  "(js_match text re_costSavings = None \<longrightarrow>
      costSavingsToday (metrics (on_resolved s (IntervalFetch (ok_reply text)))) = Num 0)
   \<and> (js_match text re_carbon = None \<longrightarrow>
      carbonReduced (metrics (on_resolved s (IntervalFetch (ok_reply text)))) = Num 0)
   \<and> (js_match text re_efficiency = None \<longrightarrow>
      efficiencyGain (metrics (on_resolved s (IntervalFetch (ok_reply text)))) = Num 12)
   \<and> (js_match text re_temperature = None \<longrightarrow>
      temperature (metrics (on_resolved s (IntervalFetch (ok_reply text)))) = Num 0)
   \<and> (js_match text re_solar = None \<longrightarrow>
      solarIrradiance (metrics (on_resolved s (IntervalFetch (ok_reply text)))) = Num 0)
   \<and> (js_match text re_energyPrice = None \<longrightarrow>
      energyPrice (metrics (on_resolved s (IntervalFetch (ok_reply text)))) = Num 0)
   \<and> (js_match text re_renewable = None \<longrightarrow>
      renewablePct (metrics (on_resolved s (IntervalFetch (ok_reply text)))) = Num 0)"
  by (simp add: fetch_ok_reply metrics_of_text_def extractNumber_def or_else_def)

theorem no_match_gives_zero_witness:
  "js_match (str ''no numbers here'') re_costSavings = None
   \<and> js_match (str ''no numbers here'') re_carbon = None
   \<and> js_match (str ''no numbers here'') re_efficiency = None
   \<and> js_match (str ''no numbers here'') re_temperature = None
   \<and> js_match (str ''no numbers here'') re_solar = None
   \<and> js_match (str ''no numbers here'') re_energyPrice = None
   \<and> js_match (str ''no numbers here'') re_renewable = None
   \<and> costSavingsToday (metrics (on_resolved
         (on_resolved initial_state (MountFetch (ok_reply (str ''Saved $99 today''))))
         (IntervalFetch (ok_reply (str ''no numbers here''))))) = Num 0
   \<and> efficiencyGain (metrics (on_resolved
         (on_resolved initial_state (MountFetch (ok_reply (str ''Saved $99 today''))))
         (IntervalFetch (ok_reply (str ''no numbers here''))))) = Num 12
   \<and> renewablePct (metrics (on_resolved
         (on_resolved initial_state (MountFetch (ok_reply (str ''Saved $99 today''))))
         (IntervalFetch (ok_reply (str ''no numbers here''))))) = Num 0"
  using no_match_gives_zero [of "str ''no numbers here''"
      "on_resolved initial_state (MountFetch (ok_reply (str ''Saved $99 today'')))"]
    no_match_costSavings no_match_carbon no_match_efficiency no_match_temperature
    no_match_solar no_match_energyPrice no_match_renewable
  by simp

section \<open>The claims about extractNumber\<close>

subsection \<open>The matcher against the words a pattern matches\<close>






















subsection \<open>parseFloat on decimal literals\<close>
















text \<open>
  C10: \<open>extractNumber\<close> can return \<open>NaN\<close>. The pattern \<^verbatim>\<open>/b/\<close> matches
  \<^verbatim>\<open>abc\<close> and has no capture group, so element 1 of the match is \<^verbatim>\<open>undefined\<close>;
  the pattern \<^verbatim>\<open>/(\d*)x/\<close> matches \<^verbatim>\<open>x\<close> with an empty first group. In both
  cases \<^verbatim>\<open>parseFloat\<close> yields \<open>NaN\<close>.
\<close>

theorem extractNumber_can_be_NaN:
  "extractNumber (str ''abc'') \<lparr>items = [One (Lit 98)], ignoreCase = False\<rparr> = NaN
   \<and> extractNumber (str ''x'')
        \<lparr>items = [Open 1, Star Digit, Close 1, One (Lit 120)], ignoreCase = False\<rparr> = NaN"
  by (simp add: eval_defs)

section \<open>The claims about the gateway\<close>

lemma callAgent_returns: "\<exists>res. callAgent fmt fr = Inr res"
  by (simp add: callAgent_def split: sum.splits)

lemma callAgent_integrated_returns: "\<exists>v. callAgent_integrated fmt fr = Inr v"
  by (simp add: callAgent_integrated_def split: sum.splits)

lemma callAgent_rejected:
  "callAgent fmt Rejected
   = Inr \<lparr>result_text = JString connect_error_text, result_data = JUndefined\<rparr>"
  by (simp add: callAgent_def callAgent_try_def)

lemma callAgent_not_json:
  "callAgent fmt (Resolved \<lparr>status = code, statusText = t, body = None\<rparr>)
   = Inr \<lparr>result_text = JString connect_error_text, result_data = JUndefined\<rparr>"
  by (simp add: callAgent_def callAgent_try_def)

lemma callAgent_backend_error:
  assumes "get_prop json (str ''status'') = Inr (JString (str ''error''))"
    and "get_prop json (str ''message'') = Inr msg"
  shows "callAgent fmt (Resolved \<lparr>status = code, statusText = t, body = Some json\<rparr>)
         = (case to_string fmt msg of
              Inl e \<Rightarrow> Inr \<lparr>result_text = JString connect_error_text, result_data = JUndefined\<rparr>
            | Inr s \<Rightarrow> Inr \<lparr>result_text = JString (warning_prefix @ s),
                              result_data = JUndefined\<rparr>)"
  using assms by (simp add: callAgent_def callAgent_try_def split: sum.splits)

lemma callAgent_status_free:
  "callAgent fmt (Resolved \<lparr>status = code, statusText = t, body = b\<rparr>)
   = callAgent fmt (Resolved \<lparr>status = code', statusText = t', body = b\<rparr>)"
  by (simp add: callAgent_def callAgent_try_def)

lemma callAgent_integrated_rejected:
  "callAgent_integrated fmt Rejected = Inr (JString connect_error_text)"
  by (simp add: callAgent_integrated_def callAgent_integrated_try_def)

lemma callAgent_integrated_not_json:
  "callAgent_integrated fmt (Resolved \<lparr>status = code, statusText = t, body = None\<rparr>)
   = Inr (JString connect_error_text)"
  by (simp add: callAgent_integrated_def callAgent_integrated_try_def)

lemma callAgent_integrated_backend_error:
  assumes "get_prop json (str ''status'') = Inr (JString (str ''error''))"
    and "get_prop json (str ''message'') = Inr msg"
  shows "callAgent_integrated fmt (Resolved \<lparr>status = code, statusText = t, body = Some json\<rparr>)
         = (case to_string fmt msg of
              Inl e \<Rightarrow> Inr (JString connect_error_text)
            | Inr s \<Rightarrow> Inr (JString (warning_prefix @ s)))"
  using assms
  by (simp add: callAgent_integrated_def callAgent_integrated_try_def split: sum.splits)

lemma callAgent_integrated_status_free:
  "callAgent_integrated fmt (Resolved \<lparr>status = code, statusText = t, body = b\<rparr>)
   = callAgent_integrated fmt (Resolved \<lparr>status = code', statusText = t', body = b\<rparr>)"
  by (simp add: callAgent_integrated_def callAgent_integrated_try_def)

lemma invokeClimateAgent_rejected: "invokeClimateAgent Rejected = Inl NetworkError"
  by (simp add: invokeClimateAgent_def)

lemma invokeClimateAgent_not_ok:
  "\<not> ok r \<Longrightarrow>
     invokeClimateAgent (Resolved r)
     = Inl (Error (str ''Agent invocation failed: '' @ statusText r))"
  by (simp add: invokeClimateAgent_def)

lemma invokeClimateAgent_ok:
  "ok r \<Longrightarrow>
     invokeClimateAgent (Resolved r)
     = (case body r of None \<Rightarrow> Inl SyntaxError | Some d \<Rightarrow> Inr d)"
  by (simp add: invokeClimateAgent_def)

text \<open>
  C6, as the claim states it, fails: \<open>invokeClimateAgent\<close> throws to its caller when
  the request is rejected and when the reply has the status 500, and \<open>callAgent\<close>
  answers a reply of status 500 whose body is \<^verbatim>\<open>{response: "fine"}\<close> with the text
  \<^verbatim>\<open>fine\<close>, not with an error.
\<close>

theorem invoke_can_throw:
  "invokeClimateAgent Rejected = Inl NetworkError
   \<and> invokeClimateAgent
        (Resolved \<lparr>status = 500, statusText = str ''Internal Server Error'',
                   body = Some (JObject [(str ''response'', JString (str ''fine''))])\<rparr>)
      = Inl (Error (str ''Agent invocation failed: Internal Server Error''))
   \<and> callAgent no_number_text
        (Resolved \<lparr>status = 500, statusText = str ''Internal Server Error'',
                   body = Some (JObject [(str ''response'', JString (str ''fine''))])\<rparr>)
      = Inr \<lparr>result_text = JString (str ''fine''), result_data = JUndefined\<rparr>"
  by (simp add: invokeClimateAgent_def ok_def callAgent_def callAgent_try_def str_def)

text \<open>
  C6 as amended. \<open>callAgent\<close> of the two chat components never throws to its caller:
  for every result of the fetch it returns a value. A rejected request and a body that
  is not JSON give the connection-error text; a JSON body whose status is \<^verbatim>\<open>error\<close>
  gives the warning sign followed by the text of its message, or the connection-error
  text when the message has no text (its conversion throws); these results carry no
  structured data. Neither the HTTP status nor its text changes the result.
  \<open>invokeClimateAgent\<close> throws to its caller when the request is rejected, when the
  HTTP status is not 2xx and when the body of a 2xx reply is not JSON; it returns the
  body of a 2xx reply as it is, whatever status that body reports.
\<close>

theorem gateway_error_contract:
  "(\<exists>res. callAgent fmt fr = Inr res)
   \<and> callAgent fmt Rejected
       = Inr \<lparr>result_text = JString connect_error_text, result_data = JUndefined\<rparr>
   \<and> callAgent fmt (Resolved \<lparr>status = code, statusText = t, body = None\<rparr>)
       = Inr \<lparr>result_text = JString connect_error_text, result_data = JUndefined\<rparr>
   \<and> (get_prop json (str ''status'') = Inr (JString (str ''error''))
        \<and> get_prop json (str ''message'') = Inr msg \<and> to_string fmt msg = Inr s
        \<longrightarrow> callAgent fmt (Resolved \<lparr>status = code, statusText = t, body = Some json\<rparr>)
              = Inr \<lparr>result_text = JString (warning_prefix @ s), result_data = JUndefined\<rparr>
            \<and> callAgent_integrated fmt
                (Resolved \<lparr>status = code, statusText = t, body = Some json\<rparr>)
              = Inr (JString (warning_prefix @ s)))
   \<and> (get_prop json (str ''status'') = Inr (JString (str ''error''))
        \<and> get_prop json (str ''message'') = Inr msg \<and> to_string fmt msg = Inl e
        \<longrightarrow> callAgent fmt (Resolved \<lparr>status = code, statusText = t, body = Some json\<rparr>)
              = Inr \<lparr>result_text = JString connect_error_text, result_data = JUndefined\<rparr>
            \<and> callAgent_integrated fmt
                (Resolved \<lparr>status = code, statusText = t, body = Some json\<rparr>)
              = Inr (JString connect_error_text))
   \<and> callAgent fmt (Resolved \<lparr>status = code, statusText = t, body = b\<rparr>)
       = callAgent fmt (Resolved \<lparr>status = code', statusText = t', body = b\<rparr>)
   \<and> (\<exists>v. callAgent_integrated fmt fr = Inr v)
   \<and> callAgent_integrated fmt Rejected = Inr (JString connect_error_text)
   \<and> callAgent_integrated fmt (Resolved \<lparr>status = code, statusText = t, body = None\<rparr>)
       = Inr (JString connect_error_text)
   \<and> callAgent_integrated fmt (Resolved \<lparr>status = code, statusText = t, body = b\<rparr>)
       = callAgent_integrated fmt (Resolved \<lparr>status = code', statusText = t', body = b\<rparr>)
   \<and> invokeClimateAgent Rejected = Inl NetworkError
   \<and> (\<not> ok r \<longrightarrow>
        invokeClimateAgent (Resolved r)
        = Inl (Error (str ''Agent invocation failed: '' @ statusText r)))
   \<and> (ok r \<and> body r = None \<longrightarrow> invokeClimateAgent (Resolved r) = Inl SyntaxError)
   \<and> (ok r \<and> body r = Some d \<longrightarrow> invokeClimateAgent (Resolved r) = Inr d)"
proof -
  have backend: "get_prop json (str ''status'') = Inr (JString (str ''error''))
        \<and> get_prop json (str ''message'') = Inr msg \<and> to_string fmt msg = Inr s
        \<longrightarrow> callAgent fmt (Resolved \<lparr>status = code, statusText = t, body = Some json\<rparr>)
              = Inr \<lparr>result_text = JString (warning_prefix @ s), result_data = JUndefined\<rparr>
            \<and> callAgent_integrated fmt
                (Resolved \<lparr>status = code, statusText = t, body = Some json\<rparr>)
              = Inr (JString (warning_prefix @ s))"
    by (simp add: callAgent_backend_error callAgent_integrated_backend_error)
  have no_text: "get_prop json (str ''status'') = Inr (JString (str ''error''))
        \<and> get_prop json (str ''message'') = Inr msg \<and> to_string fmt msg = Inl e
        \<longrightarrow> callAgent fmt (Resolved \<lparr>status = code, statusText = t, body = Some json\<rparr>)
              = Inr \<lparr>result_text = JString connect_error_text, result_data = JUndefined\<rparr>
            \<and> callAgent_integrated fmt
                (Resolved \<lparr>status = code, statusText = t, body = Some json\<rparr>)
              = Inr (JString connect_error_text)"
    by (simp add: callAgent_backend_error callAgent_integrated_backend_error)
  have climate: "(\<not> ok r \<longrightarrow>
        invokeClimateAgent (Resolved r)
        = Inl (Error (str ''Agent invocation failed: '' @ statusText r)))
   \<and> (ok r \<and> body r = None \<longrightarrow> invokeClimateAgent (Resolved r) = Inl SyntaxError)
   \<and> (ok r \<and> body r = Some d \<longrightarrow> invokeClimateAgent (Resolved r) = Inr d)"
    by (simp add: invokeClimateAgent_not_ok invokeClimateAgent_ok)
  show ?thesis
    using callAgent_returns[of fmt fr] callAgent_integrated_returns[of fmt fr]
      callAgent_rejected[of fmt] callAgent_not_json[of fmt code t]
      callAgent_status_free[of fmt code t b code' t']
      callAgent_integrated_rejected[of fmt] callAgent_integrated_not_json[of fmt code t]
      callAgent_integrated_status_free[of fmt code t b code' t']
      invokeClimateAgent_rejected backend no_text climate
    by blast
qed

theorem gateway_error_contract_witness:
  "get_prop (JObject [(str ''status'', JString (str ''error'')),
                      (str ''message'', JString (str ''boom''))]) (str ''status'')
     = Inr (JString (str ''error''))
   \<and> to_string no_number_text (JString (str ''boom'')) = Inr (str ''boom'')
   \<and> callAgent no_number_text
        (Resolved \<lparr>status = 503, statusText = [],
                   body = Some (JObject [(str ''status'', JString (str ''error'')),
                                          (str ''message'', JString (str ''boom''))])\<rparr>)
       = Inr \<lparr>result_text = JString (warning_prefix @ str ''boom''), result_data = JUndefined\<rparr>
   \<and> to_string no_number_text (JObject [(str ''toString'', JNull)]) = Inl TypeError
   \<and> callAgent no_number_text
        (Resolved \<lparr>status = 200, statusText = [],
                   body = Some (JObject [(str ''status'', JString (str ''error'')),
                                          (str ''message'', JObject [(str ''toString'', JNull)])])\<rparr>)
       = Inr \<lparr>result_text = JString connect_error_text, result_data = JUndefined\<rparr>
   \<and> \<not> ok \<lparr>status = 500, statusText = str ''Internal Server Error'', body = Some JNull\<rparr>
   \<and> invokeClimateAgent
        (Resolved \<lparr>status = 500, statusText = str ''Internal Server Error'', body = Some JNull\<rparr>)
       = Inl (Error (str ''Agent invocation failed: '' @ str ''Internal Server Error''))
   \<and> ok \<lparr>status = 200, statusText = str ''OK'', body = None\<rparr>
   \<and> invokeClimateAgent (Resolved \<lparr>status = 200, statusText = str ''OK'', body = None\<rparr>)
       = Inl SyntaxError
   \<and> invokeClimateAgent
        (Resolved \<lparr>status = 200, statusText = str ''OK'',
                   body = Some (JObject [(str ''status'', JString (str ''error''))])\<rparr>)
       = Inr (JObject [(str ''status'', JString (str ''error''))])"
proof -
  have p1: "get_prop (JObject [(str ''status'', JString (str ''error'')),
                      (str ''message'', JString (str ''boom''))]) (str ''status'')
     = Inr (JString (str ''error''))"
    and p2: "get_prop (JObject [(str ''status'', JString (str ''error'')),
                      (str ''message'', JString (str ''boom''))]) (str ''message'')
     = Inr (JString (str ''boom''))"
    and p3: "get_prop (JObject [(str ''status'', JString (str ''error'')),
                      (str ''message'', JObject [(str ''toString'', JNull)])]) (str ''status'')
     = Inr (JString (str ''error''))"
    and p4: "get_prop (JObject [(str ''status'', JString (str ''error'')),
                      (str ''message'', JObject [(str ''toString'', JNull)])]) (str ''message'')
     = Inr (JObject [(str ''toString'', JNull)])"
    by (simp_all add: str_def)
  have t1: "to_string no_number_text (JString (str ''boom'')) = Inr (str ''boom'')"
    and t2: "to_string no_number_text (JObject [(str ''toString'', JNull)]) = Inl TypeError"
    by simp_all
  have o1: "\<not> ok \<lparr>status = 500, statusText = str ''Internal Server Error'', body = Some JNull\<rparr>"
    and o2: "ok \<lparr>status = 200, statusText = str ''OK'', body = None\<rparr>"
    and o3: "ok \<lparr>status = 200, statusText = str ''OK'',
                 body = Some (JObject [(str ''status'', JString (str ''error''))])\<rparr>"
    by (simp_all add: ok_def)
  show ?thesis
    using p1 p2 p3 p4 t1 t2 o1 o2 o3
      gateway_error_contract [where fmt = no_number_text and code = 503 and t = "[]"
        and json = "JObject [(str ''status'', JString (str ''error'')),
                             (str ''message'', JString (str ''boom''))]"
        and msg = "JString (str ''boom'')" and s = "str ''boom''"
        and r = "\<lparr>status = 500, statusText = str ''Internal Server Error'', body = Some JNull\<rparr>"]
      gateway_error_contract [where fmt = no_number_text and code = 200 and t = "[]"
        and json = "JObject [(str ''status'', JString (str ''error'')),
                             (str ''message'', JObject [(str ''toString'', JNull)])]"
        and msg = "JObject [(str ''toString'', JNull)]" and e = TypeError
        and r = "\<lparr>status = 200, statusText = str ''OK'', body = None\<rparr>"]
      gateway_error_contract [where fmt = no_number_text
        and r = "\<lparr>status = 200, statusText = str ''OK'',
                  body = Some (JObject [(str ''status'', JString (str ''error''))])\<rparr>"
        and d = "JObject [(str ''status'', JString (str ''error''))]"]
    by simp
qed

section \<open>The claim about the cache\<close>

lemma consistent_iff:
  "consistent b c \<longleftrightarrow> (\<forall>kv \<in> set c. b (fst kv) = AgentResult StatusSuccess (responseText (snd kv)) (structuredData (snd kv)))"
  by (induction c) auto

lemma consistent_lookup:
  "consistent b c \<Longrightarrow> cache_lookup c now p = Some e \<Longrightarrow>
     b p = AgentResult StatusSuccess (responseText e) (structuredData e)"
  by (auto simp: consistent_iff cache_lookup_def split: option.splits if_splits dest!: map_of_SomeD)

lemma set_evict_oldest: "set (evict_oldest c) \<subseteq> set c"
proof (cases c)
  case Nil
  then show ?thesis by (simp add: evict_oldest_def)
next
  case (Cons x xs)
  have "set (remove1 (oldest x xs) c) \<subseteq> set c" by (rule set_remove1_subset)
  with Cons show ?thesis by (simp add: evict_oldest_def)
qed

lemma set_store: "set (store c p e) \<subseteq> insert (p, e) (set c)"
  using set_evict_oldest[of "filter (\<lambda>kv. fst kv \<noteq> p) c"]
  by (auto simp: store_def Let_def)

lemma consistent_store:
  "consistent b c \<Longrightarrow> b p = AgentResult StatusSuccess (responseText e) (structuredData e) \<Longrightarrow>
     consistent b (store c p e)"
  using set_store[of c p e] unfolding consistent_iff by fastforce

lemma invoke_result: "consistent b c \<Longrightarrow> fst (invoke b c now p) = b p"
  by (auto simp: invoke_def consistent_lookup split: option.splits agent_result.splits agent_status.splits)

lemma invoke_consistent: "consistent b c \<Longrightarrow> consistent b (snd (invoke b c now p))"
  by (auto simp: invoke_def consistent_store split: option.splits agent_result.splits agent_status.splits)

lemma serve_consistent: "consistent b c \<Longrightarrow> consistent b (serve b c rs)"
  by (induction b c rs rule: serve.induct) (simp_all add: invoke_consistent)

lemma store_lookup:
  "now \<le> t2 \<Longrightarrow> t2 - now < TTL \<Longrightarrow>
    cache_lookup (store c p \<lparr>responseText = t, structuredData = d, timestamp = now\<rparr>) t2 p
      = Some \<lparr>responseText = t, structuredData = d, timestamp = now\<rparr>"
proof -
  assume a: "t2 - now < TTL"
  let ?others = "filter (\<lambda>kv. fst kv \<noteq> p) c"
  let ?kept = "if CAPACITY \<le> length ?others then evict_oldest ?others else ?others"
  have "p \<notin> fst ` set ?kept"
    using set_evict_oldest[of ?others] by (auto split: if_splits)
  then have "map_of ?kept p = None" by (simp add: map_of_eq_None_iff)
  then show ?thesis using a
    by (simp add: store_def Let_def cache_lookup_def valid_at_def map_add_def)
qed

lemma hit_after_miss:
  assumes "cache_lookup c t1 p = None" and "b p = AgentResult StatusSuccess t d"
    and "t1 \<le> t2" and "t2 - t1 < TTL"
  shows "fst (invoke b' (snd (invoke b c t1 p)) t2 p) = AgentResult StatusSuccess t d"
  using assms by (simp add: invoke_def store_lookup)

lemma repeated_invoke:
  "fst (invoke b (snd (invoke b (serve b [] hist) t1 p)) t2 p)
   = fst (invoke b (serve b [] hist) t1 p)"
proof -
  have c: "consistent b (serve b [] hist)" by (simp add: serve_consistent)
  then have "consistent b (snd (invoke b (serve b [] hist) t1 p))" by (rule invoke_consistent)
  then show ?thesis using c by (simp add: invoke_result)
qed

text \<open>
  C8: with a stable backend \<open>b\<close> and the cache as any history of requests has left it,
  two invocations with the same prompt, the second within the TTL of the first, return
  the same result (status, response text and structured data). Moreover, when the first
  invocation missed the cache and stored a successful reply, the second one is answered
  from the cache: it returns that reply whatever a backend \<open>b'\<close> would answer then.
\<close>

theorem cache_idempotence:
  assumes "t1 \<le> t2" and "t2 - t1 < TTL"
  shows "fst (invoke b (snd (invoke b (serve b [] hist) t1 p)) t2 p)
           = fst (invoke b (serve b [] hist) t1 p)
         \<and> (cache_lookup (serve b [] hist) t1 p = None \<and> b p = AgentResult StatusSuccess t d
             \<longrightarrow> fst (invoke b' (snd (invoke b (serve b [] hist) t1 p)) t2 p)
                   = fst (invoke b (serve b [] hist) t1 p))"
proof -
  have "fst (invoke b (serve b [] hist) t1 p) = b p"
    by (simp add: invoke_result serve_consistent)
  with assms show ?thesis
    by (simp add: repeated_invoke hit_after_miss)
qed

theorem cache_idempotence_witness:
  "(0::int) \<le> 10 \<and> (10::int) - 0 < TTL
   \<and> cache_lookup (serve (\<lambda>q. AgentResult StatusSuccess (str ''ok'') None) [] []) 0 (str ''x'') = None
   \<and> fst (invoke (\<lambda>q. AgentResult StatusSuccess (str ''ok'') None)
        (snd (invoke (\<lambda>q. AgentResult StatusSuccess (str ''ok'') None)
               (serve (\<lambda>q. AgentResult StatusSuccess (str ''ok'') None) [] []) 0 (str ''x'')))
        10 (str ''x''))
      = fst (invoke (\<lambda>q. AgentResult StatusSuccess (str ''ok'') None)
               (serve (\<lambda>q. AgentResult StatusSuccess (str ''ok'') None) [] []) 0 (str ''x''))
   \<and> fst (invoke (\<lambda>q. AgentResult StatusError (str ''down'') None)
        (snd (invoke (\<lambda>q. AgentResult StatusSuccess (str ''ok'') None)
               (serve (\<lambda>q. AgentResult StatusSuccess (str ''ok'') None) [] []) 0 (str ''x'')))
        10 (str ''x''))
      = AgentResult StatusSuccess (str ''ok'') None"
proof -
  have h1: "(0::int) \<le> 10" by simp
  have h2: "(10::int) - 0 < TTL" by (simp add: TTL_def)
  have h3: "cache_lookup (serve (\<lambda>q. AgentResult StatusSuccess (str ''ok'') None) [] []) 0 (str ''x'') = None"
    by (simp add: cache_lookup_def)
  have h4: "fst (invoke (\<lambda>q. AgentResult StatusSuccess (str ''ok'') None)
               (serve (\<lambda>q. AgentResult StatusSuccess (str ''ok'') None) [] []) 0 (str ''x''))
            = AgentResult StatusSuccess (str ''ok'') None"
    by (simp add: invoke_def cache_lookup_def)
  from cache_idempotence [OF h1 h2, of "\<lambda>q. AgentResult StatusSuccess (str ''ok'') None" "[]"
      "str ''x''" "str ''ok''" None "\<lambda>q. AgentResult StatusError (str ''down'') None"] h3 h4
  have "fst (invoke (\<lambda>q. AgentResult StatusSuccess (str ''ok'') None)
        (snd (invoke (\<lambda>q. AgentResult StatusSuccess (str ''ok'') None)
               (serve (\<lambda>q. AgentResult StatusSuccess (str ''ok'') None) [] []) 0 (str ''x'')))
        10 (str ''x''))
      = fst (invoke (\<lambda>q. AgentResult StatusSuccess (str ''ok'') None)
               (serve (\<lambda>q. AgentResult StatusSuccess (str ''ok'') None) [] []) 0 (str ''x''))"
    and "fst (invoke (\<lambda>q. AgentResult StatusError (str ''down'') None)
        (snd (invoke (\<lambda>q. AgentResult StatusSuccess (str ''ok'') None)
               (serve (\<lambda>q. AgentResult StatusSuccess (str ''ok'') None) [] []) 0 (str ''x'')))
        10 (str ''x''))
      = AgentResult StatusSuccess (str ''ok'') None"
    by simp_all
  with h1 h2 h3 show ?thesis by simp
qed

end
